theory Spec2Isabelle
  imports Complex_Main
begin

text \<open>
  A model of \<^verbatim>\<open>src/app.js\<close>: the storage selector, the \<^verbatim>\<open>adaptiveUpload\<close> middleware and
  the handler of \<^verbatim>\<open>POST /upload\<close>, for one request. The CORS policy, the body parsers,
  the request logger, the static files and the performance log take no part in what is
  proved here and are left out.
\<close>

section \<open>JavaScript numbers\<close>

text \<open>
  The numbers of \<^verbatim>\<open>src/app.js\<close> are JavaScript Numbers, that is binary64 floating-point
  numbers. The model keeps NaN, the two infinities and the finite values, the latter as
  rationals; the result of a division or a subtraction is rounded to binary64 as IEEE 754
  prescribes (to the nearest value, ties to the even significand, with subnormal numbers
  and overflow to infinity). The sign of zero is not modelled.
\<close>

datatype jsnum = JNaN | JNegInf | JNum rat | JPosInf

subsection \<open>Comparison\<close>

text \<open>\<^verbatim>\<open>a > b\<close>: false as soon as one side is NaN.\<close>

fun js_gt :: "jsnum \<Rightarrow> jsnum \<Rightarrow> bool" where
  "js_gt JNaN b = False"
| "js_gt a JNaN = False"
| "js_gt JPosInf JPosInf = False"
| "js_gt JPosInf b = True"
| "js_gt JNegInf b = False"
| "js_gt (JNum x) JNegInf = True"
| "js_gt (JNum x) (JNum y) = (y < x)"
| "js_gt (JNum x) JPosInf = False"

text \<open>\<^verbatim>\<open>a <= b\<close>: false as soon as one side is NaN, otherwise the negation of \<^verbatim>\<open>a > b\<close>.\<close>

fun js_le :: "jsnum \<Rightarrow> jsnum \<Rightarrow> bool" where
  "js_le JNaN b = False"
| "js_le a JNaN = False"
| "js_le a b = (if js_gt a b then False else True)"

subsection \<open>Rounding to binary64\<close>

text \<open>The number of binary digits of a natural number.\<close>

fun bit_length :: "nat \<Rightarrow> nat" where
  "bit_length n = (if n = 0 then 0 else Suc (bit_length (n div 2)))"

declare bit_length.simps [simp del]

text \<open>
  The binary exponent of a positive rational \<open>a\<close>: the integer \<open>e\<close> with
  \<open>2 ^ e \<le> a < 2 ^ (e + 1)\<close>.
\<close>

definition exponent2 :: "rat \<Rightarrow> int" where
  "exponent2 a =
     (if 1 \<le> a then int (bit_length (nat \<lfloor>a\<rfloor>)) - 1
      else - int (bit_length (nat (\<lceil>1 / a\<rceil> - 1))))"

text \<open>The nearest integer, a tie going to the even one.\<close>

definition round_half_even :: "rat \<Rightarrow> int" where
  "round_half_even x =
     (let n = \<lfloor>x\<rfloor>; d = x - of_int n
      in if d < 1 / 2 then n
         else if 1 / 2 < d then n + 1
         else if even n then n else n + 1)"

text \<open>
  The exponent binary64 uses for a positive \<open>a\<close>: its binary exponent, and \<open>- 1022\<close> for
  the subnormal numbers below \<open>2 ^ (- 1022)\<close>.
\<close>

definition binade :: "rat \<Rightarrow> int" where
  "binade a = max (exponent2 a) (- 1022)"

text \<open>
  The multiple of \<open>2 ^ (binade a - 52)\<close> nearest to a positive \<open>a\<close>: a significand of 53
  bits.
\<close>

definition nearest64 :: "rat \<Rightarrow> rat" where
  "nearest64 a =
     of_int (round_half_even (a / 2 powi (binade a - 52))) * 2 powi (binade a - 52)"

text \<open>The binary64 number a rational rounds to; from \<open>2 ^ 1024\<close> on it is an infinity.\<close>

definition round64 :: "rat \<Rightarrow> jsnum" where
  "round64 q =
     (if q = 0 then JNum 0
      else if 0 < q then (if 2 ^ 1024 \<le> nearest64 q then JPosInf else JNum (nearest64 q))
      else (if 2 ^ 1024 \<le> nearest64 (- q) then JNegInf else JNum (- nearest64 (- q))))"

subsection \<open>Arithmetic\<close>

text \<open>\<^verbatim>\<open>a / b\<close>, with division by zero giving an infinity or NaN as in JavaScript.\<close>

fun js_div :: "jsnum \<Rightarrow> jsnum \<Rightarrow> jsnum" where
  "js_div JNaN b = JNaN"
| "js_div a JNaN = JNaN"
| "js_div (JNum x) (JNum y) =
     (if y = 0 then (if x = 0 then JNaN else if 0 < x then JPosInf else JNegInf)
      else round64 (x / y))"
| "js_div (JNum x) b = JNum 0"
| "js_div JPosInf (JNum y) = (if y < 0 then JNegInf else JPosInf)"
| "js_div JNegInf (JNum y) = (if y < 0 then JPosInf else JNegInf)"
| "js_div a b = JNaN"

text \<open>\<^verbatim>\<open>a - b\<close>.\<close>

fun js_sub :: "jsnum \<Rightarrow> jsnum \<Rightarrow> jsnum" where
  "js_sub JNaN b = JNaN"
| "js_sub a JNaN = JNaN"
| "js_sub (JNum x) (JNum y) = round64 (x - y)"
| "js_sub (JNum x) JPosInf = JNegInf"
| "js_sub (JNum x) JNegInf = JPosInf"
| "js_sub JPosInf JPosInf = JNaN"
| "js_sub JPosInf b = JPosInf"
| "js_sub JNegInf JNegInf = JNaN"
| "js_sub JNegInf b = JNegInf"

section \<open>Errors and the environment of one request\<close>

text \<open>A thrown \<^verbatim>\<open>Error\<close>, with its \<^verbatim>\<open>message\<close>.\<close>

datatype js_error = Error (message: string)

type_synonym path = string
type_synonym bytes = string

datatype json =
    JNull
  | JBool bool
  | JNumber rat
  | JStr string
  | JArr "json list"
  | JObj "(string \<times> json) list"

text \<open>
  What the handling of one request reads from outside the program:
  \<^item> \<open>uploadsDir\<close>: the value of \<^verbatim>\<open>path.join(__dirname, 'uploads')\<close>;
  \<^item> \<open>freemem\<close>, \<open>totalmem\<close>: what \<^verbatim>\<open>os.freemem()\<close> and \<^verbatim>\<open>os.totalmem()\<close> do, a thrown
    error or a number of bytes (an integer that binary64 represents);
  \<^item> \<open>now_storage\<close>, \<open>now_handler\<close>: what \<^verbatim>\<open>Date.now()\<close> returns in the disk storage's
    \<^verbatim>\<open>filename\<close> callback and in the route handler;
  \<^item> \<open>write_fault\<close>: the error \<^verbatim>\<open>fs.writeFileSync\<close> throws, if it throws;
  \<^item> \<open>unlink_fault\<close>: the error \<^verbatim>\<open>fs.unlinkSync\<close> throws on a path for a reason of the
    host (permissions, a locked file), if it does;
  \<^item> \<open>relay\<close>: when \<^verbatim>\<open>ai.files.upload\<close> settles, in milliseconds after the call, and
    with what (rejected with an error, or resolved with the provider's metadata);
    \<open>None\<close> when it never settles.
\<close>

record env =
  uploadsDir :: path
  freemem :: "js_error + nat"
  totalmem :: "js_error + nat"
  now_storage :: nat
  now_handler :: nat
  write_fault :: "js_error option"
  unlink_fault :: "path \<Rightarrow> js_error option"
  relay :: "(nat \<times> (js_error + json)) option"

section \<open>The storage selector\<close>

text \<open>\<^verbatim>\<open>const MEMORY_THRESHOLD = 0.8\<close>: the literal denotes the binary64 number nearest to 0.8.\<close>

definition MEMORY_THRESHOLD :: jsnum where
  "MEMORY_THRESHOLD = round64 (8 / 10)"

text \<open>\<^verbatim>\<open>1 - (freeMem / totalMem)\<close>\<close>

definition memoryUsageRatio :: "nat \<Rightarrow> nat \<Rightarrow> jsnum" where
  "memoryUsageRatio freeMem totalMem =
     js_sub (JNum 1) (js_div (JNum (of_nat freeMem)) (JNum (of_nat totalMem)))"

text \<open>
  The \<^verbatim>\<open>try\<close> block of \<^verbatim>\<open>shouldUseMemoryStorage\<close> (app.js, lines 55 to 68): \<open>Inl\<close> is the
  error thrown out of the block. The console output of the block is not modelled.
\<close>

definition shouldUseMemoryStorage_try :: "env \<Rightarrow> jsnum \<Rightarrow> js_error + bool" where
  "shouldUseMemoryStorage_try e fileSize =
     (case freemem e of
        Inl err \<Rightarrow> Inl err
      | Inr freeMem \<Rightarrow>
          (case totalmem e of
             Inl err \<Rightarrow> Inl err
           | Inr totalMem \<Rightarrow>
               (if js_gt fileSize (JNum (15 * 1024 * 1024))
                   \<or> js_gt (memoryUsageRatio freeMem totalMem) MEMORY_THRESHOLD
                then Inr False
                else Inr True)))"

text \<open>
  \<^verbatim>\<open>shouldUseMemoryStorage\<close> (lines 54 to 74): the \<^verbatim>\<open>catch\<close> turns every error of the
  block into \<^verbatim>\<open>false\<close>. \<open>True\<close> is memory storage, \<open>False\<close> is disk storage.
\<close>

definition shouldUseMemoryStorage :: "env \<Rightarrow> jsnum \<Rightarrow> bool" where
  "shouldUseMemoryStorage e fileSize =
     (case shouldUseMemoryStorage_try e fileSize of
        Inl err \<Rightarrow> False
      | Inr b \<Rightarrow> b)"

section \<open>The declared size of a request\<close>

text \<open>
  \<^verbatim>\<open>parseInt(string)\<close> with no radix, as ECMAScript defines it: leading white space is
  dropped, then an optional sign, then the prefix \<^verbatim>\<open>0x\<close> or \<^verbatim>\<open>0X\<close> selects radix 16
  (radix 10 otherwise), then the longest run of digits of that radix is read; no digit
  gives NaN. A header value reaches the program decoded as Latin-1, one \<open>char\<close> for
  each code unit, so the white space is the tab, the line feed, the vertical tab, the
  form feed, the carriage return, the space and the no-break space. The integer read is
  kept exact.
\<close>

definition is_js_whitespace :: "char \<Rightarrow> bool" where
  "is_js_whitespace c = ((of_char c :: nat) \<in> {9, 10, 11, 12, 13, 32, 160})"

definition digit_of :: "char \<Rightarrow> nat option" where
  "digit_of c =
     (let n = (of_char c :: nat) in
      if 48 \<le> n \<and> n \<le> 57 then Some (n - 48)
      else if 97 \<le> n \<and> n \<le> 122 then Some (n - 87)
      else if 65 \<le> n \<and> n \<le> 90 then Some (n - 55)
      else None)"

definition is_radix_digit :: "nat \<Rightarrow> char \<Rightarrow> bool" where
  "is_radix_digit R c = (case digit_of c of None \<Rightarrow> False | Some d \<Rightarrow> d < R)"

definition digits_value :: "nat \<Rightarrow> string \<Rightarrow> nat" where
  "digits_value R Z =
     foldl (\<lambda>acc c. acc * R + (case digit_of c of None \<Rightarrow> 0 | Some d \<Rightarrow> d)) 0 Z"

definition parseInt :: "string \<Rightarrow> jsnum" where
  "parseInt inputString =
     (let S0 = dropWhile is_js_whitespace inputString;
          negative = (take 1 S0 = ''-'');
          S1 = (if take 1 S0 = ''-'' \<or> take 1 S0 = ''+'' then drop 1 S0 else S0);
          hex = (take 2 S1 = ''0x'' \<or> take 2 S1 = ''0X'');
          R = (if hex then 16 else 10);
          S2 = (if hex then drop 2 S1 else S1);
          Z = takeWhile (is_radix_digit R) S2
      in if Z = [] then JNaN
         else JNum (of_int ((if negative then - 1 else 1) * int (digits_value R Z))))"

text \<open>
  One file part of a multipart body, and the request: its headers (names in lower case,
  as Node gives them) and the file parts of its body.
\<close>

record file_part =
  part_originalname :: string
  part_mimetype :: string
  part_content :: bytes

record request =
  headers :: "string \<rightharpoonup> string"
  parts :: "file_part list"

text \<open>
  Lines 89 and 90 of \<^verbatim>\<open>adaptiveUpload\<close>: a header that is absent (\<^verbatim>\<open>undefined\<close>) or the empty
  string is falsy and gives 0; any other value goes through \<^verbatim>\<open>parseInt\<close>.
\<close>

definition contentLength :: "request \<Rightarrow> jsnum" where
  "contentLength req =
     (case headers req ''content-length'' of
        None \<Rightarrow> JNum 0
      | Some v \<Rightarrow> if v = [] then JNum 0 else parseInt v)"

section \<open>Responses, the file system and the trace of effects\<close>

record response =
  status :: nat
  body :: json

text \<open>
  The effects of a request, in the order they happen: a file written, a file deleted,
  the call of \<^verbatim>\<open>ai.files.upload\<close> (file, mimeType, displayName), a line of
  \<^verbatim>\<open>console.error\<close> (label and the error's message), a response sent.
\<close>

datatype event =
    EWrite path
  | EUnlink path
  | ERelay "path option" string string
  | EConsoleError string string
  | ESend response

text \<open>
  The state a request changes: the files on disk, the trace, and the module-level
  variable \<^verbatim>\<open>useMemoryStorage\<close>. One request is modelled on its own; the interleaving of
  several requests on the shared variable is outside the model.
\<close>

record world =
  fs_files :: "path \<rightharpoonup> bytes"
  trace :: "event list"
  useMemoryStorage :: bool

definition emit :: "event \<Rightarrow> world \<Rightarrow> world" where
  "emit ev w = w\<lparr>trace := trace w @ [ev]\<rparr>"

text \<open>\<^verbatim>\<open>res.status(n).json(b)\<close>; \<^verbatim>\<open>res.json(b)\<close> is the same with status 200.\<close>

definition send :: "nat \<Rightarrow> json \<Rightarrow> world \<Rightarrow> world" where
  "send n b w = emit (ESend \<lparr>status = n, body = b\<rparr>) w"

definition console_error :: "string \<Rightarrow> js_error \<Rightarrow> world \<Rightarrow> world" where
  "console_error label err w = emit (EConsoleError label (message err)) w"

text \<open>The responses sent so far, in order.\<close>

fun responses :: "event list \<Rightarrow> response list" where
  "responses [] = []"
| "responses (ESend r # evs) = r # responses evs"
| "responses (ev # evs) = responses evs"

text \<open>
  \<^verbatim>\<open>fs.writeFileSync(p, data)\<close>: throws when the host makes it throw, and on
  \<^verbatim>\<open>undefined\<close> data; otherwise the file holds the data afterwards.
\<close>

definition writeFileSync :: "env \<Rightarrow> path \<Rightarrow> bytes option \<Rightarrow> world \<Rightarrow> js_error + world" where
  "writeFileSync e p data w =
     (case write_fault e of
        Some err \<Rightarrow> Inl err
      | None \<Rightarrow>
          (case data of
             None \<Rightarrow> Inl (Error ''ERR_INVALID_ARG_TYPE'')
           | Some d \<Rightarrow> Inr (emit (EWrite p) (w\<lparr>fs_files := (fs_files w)(p \<mapsto> d)\<rparr>))))"

text \<open>
  \<^verbatim>\<open>fs.unlinkSync(p)\<close>: throws on an \<^verbatim>\<open>undefined\<close> path, when the host makes it throw,
  and when there is no such file; otherwise the file is gone afterwards.
\<close>

definition unlinkSync :: "env \<Rightarrow> path option \<Rightarrow> world \<Rightarrow> js_error + world" where
  "unlinkSync e po w =
     (case po of
        None \<Rightarrow> Inl (Error ''ERR_INVALID_ARG_TYPE'')
      | Some p \<Rightarrow>
          (case unlink_fault e p of
             Some err \<Rightarrow> Inl err
           | None \<Rightarrow>
               (case fs_files w p of
                  None \<Rightarrow> Inl (Error (''ENOENT: no such file or directory, unlink '' @ p))
                | Some d \<Rightarrow> Inr (emit (EUnlink p) (w\<lparr>fs_files := (fs_files w)(p := None)\<rparr>)))))"

text \<open>A non-negative integer as JavaScript prints it in a string concatenation.\<close>

fun show_nat :: "nat \<Rightarrow> string" where
  "show_nat n =
     (if n < 10 then [''0123456789'' ! n]
      else show_nat (n div 10) @ [''0123456789'' ! (n mod 10)])"

declare show_nat.simps [simp del]

text \<open>
  \<^verbatim>\<open>path.join(dir, name)\<close> for a file name without separators, which is what multer
  gives as \<^verbatim>\<open>originalname\<close>.
\<close>

definition path_join :: "path \<Rightarrow> string \<Rightarrow> path" where
  "path_join dir name = dir @ ''/'' @ name"

section \<open>The upload receiver\<close>

text \<open>What multer leaves in \<^verbatim>\<open>req.file\<close>: the fields the program reads.\<close>

record uploaded_file =
  originalname :: string
  mimetype :: string
  buffer :: "bytes option"
  path :: "path option"

text \<open>The \<^verbatim>\<open>limits\<close> object given to multer.\<close>

record limits =
  fileSize :: nat
  files :: nat

datatype multer_code = LIMIT_FILE_SIZE | LIMIT_FILE_COUNT

fun multer_message :: "multer_code \<Rightarrow> string" where
  "multer_message LIMIT_FILE_SIZE = ''File too large''"
| "multer_message LIMIT_FILE_COUNT = ''Too many files''"

text \<open>The \<^verbatim>\<open>err\<close> of the upload callback: a \<^verbatim>\<open>MulterError\<close> or any other error.\<close>

datatype upload_error = MulterError multer_code | OtherError string

text \<open>
  The disk storage of lines 77 to 84: the destination is the uploads directory, the file
  name is \<^verbatim>\<open>Date.now() + '-' + file.originalname\<close>.
\<close>

definition storage_path :: "env \<Rightarrow> file_part \<Rightarrow> path" where
  "storage_path e p =
     path_join (uploadsDir e) (show_nat (now_storage e) @ ''-'' @ part_originalname p)"

text \<open>
  Modelled from the spec: multer, the library that parses the multipart body and enforces
  the limits, is not in the repository. Following sections 4.3 and 7 of the specification,
  \<^verbatim>\<open>multer({storage, limits}).single('file')\<close> rejects a request with more files than
  \<open>files\<close> and a request with a file larger than \<open>fileSize\<close>, with an error that names the
  limit, and leaves nothing of a rejected request behind; a request with no file leaves
  \<^verbatim>\<open>req.file\<close> undefined; otherwise the file is held as a buffer in memory mode, and is
  written to the path the disk storage chooses in disk mode. The messages are the ones
  multer attaches to the two codes.
\<close>

definition multer_single ::
  "env \<Rightarrow> bool \<Rightarrow> limits \<Rightarrow> request \<Rightarrow> world \<Rightarrow> (upload_error + uploaded_file option) \<times> world" where
  "multer_single e memory lm req w =
     (if files lm < length (parts req) then (Inl (MulterError LIMIT_FILE_COUNT), w)
      else if list_ex (\<lambda>p. fileSize lm < length (part_content p)) (parts req)
        then (Inl (MulterError LIMIT_FILE_SIZE), w)
      else
        (case parts req of
           [] \<Rightarrow> (Inr None, w)
         | p # ps \<Rightarrow>
             if memory
             then (Inr (Some \<lparr>originalname = part_originalname p, mimetype = part_mimetype p,
                               buffer = Some (part_content p), path = None\<rparr>), w)
             else (Inr (Some \<lparr>originalname = part_originalname p, mimetype = part_mimetype p,
                               buffer = None, path = Some (storage_path e p)\<rparr>),
                   emit (EWrite (storage_path e p))
                     (w\<lparr>fs_files := (fs_files w)(storage_path e p \<mapsto> part_content p)\<rparr>))))"

text \<open>What a middleware does last: it has sent a response, or it calls \<^verbatim>\<open>next()\<close>.\<close>

datatype middleware_result = Responded | Next "uploaded_file option"

text \<open>\<^verbatim>\<open>adaptiveUpload\<close>, lines 88 to 107.\<close>

definition adaptiveUpload :: "env \<Rightarrow> request \<Rightarrow> world \<Rightarrow> middleware_result \<times> world" where
  "adaptiveUpload e req w =
     (let w1 = w\<lparr>useMemoryStorage := shouldUseMemoryStorage e (contentLength req)\<rparr>;
          upload = multer_single e (useMemoryStorage w1)
                     \<lparr>fileSize = 50 * 1024 * 1024, files = 1\<rparr>
      in case upload req w1 of
           (Inl (MulterError c), w2) \<Rightarrow>
             (Responded, send 400 (JObj [(''error'', JStr (''Multer error: '' @ multer_message c))]) w2)
         | (Inl (OtherError m), w2) \<Rightarrow>
             (Responded, send 500 (JObj [(''error'', JStr (''Unknown error: '' @ m))]) w2)
         | (Inr f, w2) \<Rightarrow> (Next f, w2))"

section \<open>The route handler\<close>

text \<open>
  \<^verbatim>\<open>Promise.race([uploadPromise, timeoutPromise])\<close>, lines 147 to 154: the timer rejects
  with the timeout error 180000 ms after the call, so the relay's own outcome is the
  result only if it settles before that. (A relay settling in the very millisecond of the
  timer is taken as late.)
\<close>

definition race :: "(nat \<times> (js_error + json)) option \<Rightarrow> js_error + json" where
  "race r =
     (case r of
        None \<Rightarrow> Inl (Error ''Gemini API upload timeout'')
      | Some (t, outcome) \<Rightarrow>
          if t < 180000 then outcome else Inl (Error ''Gemini API upload timeout''))"

text \<open>
  The \<^verbatim>\<open>try\<close> block of the handler, lines 134 to 159, for \<^verbatim>\<open>req.file = f\<close>: the error
  thrown out of the block, if any, and the state where it was thrown or where the block
  ended.
\<close>

definition upload_try :: "env \<Rightarrow> uploaded_file option \<Rightarrow> world \<Rightarrow> js_error option \<times> world" where
  "upload_try e f w =
     (case f of
        None \<Rightarrow> (None, send 400 (JObj [(''error'', JStr ''No file uploaded'')]) w)
      | Some file \<Rightarrow>
          (case (if useMemoryStorage w
                 then (let tempFilePath =
                         path_join (uploadsDir e)
                           (''temp-'' @ show_nat (now_handler e) @ ''-'' @ originalname file)
                       in case writeFileSync e tempFilePath (buffer file) w of
                            Inl err \<Rightarrow> Inl err
                          | Inr w1 \<Rightarrow> Inr (Some tempFilePath, w1))
                 else Inr (path file, w)) of
             Inl err \<Rightarrow> (Some err, w)
           | Inr (tempFilePath, w1) \<Rightarrow>
               (let w2 = emit (ERelay tempFilePath (mimetype file) (originalname file)) w1
                in case race (relay e) of
                     Inl err \<Rightarrow> (Some err, w2)
                   | Inr uploadedFile \<Rightarrow>
                       (case unlinkSync e tempFilePath w2 of
                          Inl err \<Rightarrow> (Some err, w2)
                        | Inr w3 \<Rightarrow>
                            (None,
                             send 200 (JObj [(''message'', JStr ''File uploaded to Gemini Files API''),
                                             (''metadata'', uploadedFile)]) w3)))))"

text \<open>
  The \<^verbatim>\<open>catch\<close> block, lines 160 to 171. \<^verbatim>\<open>req.file.path\<close> is truthy when it is a
  non-empty string.
\<close>

definition upload_catch :: "env \<Rightarrow> uploaded_file option \<Rightarrow> js_error \<Rightarrow> world \<Rightarrow> world" where
  "upload_catch e f err w =
     (let w1 = console_error ''Upload error:'' err w;
          w2 = send 500 (JObj [(''error'', JStr ''File upload failed''),
                               (''details'', JStr (message err)),
                               (''storageType'',
                                  JStr (if useMemoryStorage w1 then ''memory'' else ''disk''))]) w1
      in case f of
           None \<Rightarrow> w2
         | Some file \<Rightarrow>
             if \<not> useMemoryStorage w2 \<and> path file \<noteq> None \<and> path file \<noteq> Some []
             then (case unlinkSync e (path file) w2 of
                     Inl e2 \<Rightarrow> console_error ''Failed to clean up file:'' e2 w2
                   | Inr w3 \<Rightarrow> w3)
             else w2)"

text \<open>The handler of \<^verbatim>\<open>POST /upload\<close>, lines 132 to 172.\<close>

definition upload_handler :: "env \<Rightarrow> uploaded_file option \<Rightarrow> world \<Rightarrow> world" where
  "upload_handler e f w =
     (case upload_try e f w of
        (None, w1) \<Rightarrow> w1
      | (Some err, w1) \<Rightarrow> upload_catch e f err w1)"

text \<open>\<^verbatim>\<open>app.post('/upload', adaptiveUpload, handler)\<close>: one request from start to end.\<close>

definition post_upload :: "env \<Rightarrow> request \<Rightarrow> world \<Rightarrow> world" where
  "post_upload e req w =
     (case adaptiveUpload e req w of
        (Responded, w1) \<Rightarrow> w1
      | (Next f, w1) \<Rightarrow> upload_handler e f w1)"

section \<open>Concrete requests\<close>

text \<open>
  A host with nine tenths of its memory free, whose relay rejects after one second, and
  variations of it; a small text file declared as 200 bytes; an empty uploads directory.
\<close>

definition example_env :: env where
  "example_env =
     \<lparr>uploadsDir = ''/app/uploads'', freemem = Inr 9, totalmem = Inr 10,
      now_storage = 5, now_handler = 7, write_fault = None,
      unlink_fault = (\<lambda>p. None),
      relay = Some (1000, Inl (Error ''503 Service Unavailable''))\<rparr>"

definition example_metadata :: json where
  "example_metadata = JObj [(''name'', JStr ''files/abc123''), (''sizeBytes'', JStr ''3'')]"

definition example_part :: file_part where
  "example_part =
     \<lparr>part_originalname = ''a.txt'', part_mimetype = ''text/plain'', part_content = ''abc''\<rparr>"

definition example_request :: request where
  "example_request = \<lparr>headers = [''content-length'' \<mapsto> ''200''], parts = [example_part]\<rparr>"

definition example_world :: world where
  "example_world = \<lparr>fs_files = Map.empty, trace = [], useMemoryStorage = True\<rparr>"

section \<open>Rounding to binary64 is monotone\<close>

lemma bit_length_bounds:
  "0 < n \<Longrightarrow> 2 ^ (bit_length n - 1) \<le> n \<and> n < 2 ^ bit_length n"
proof (induction n rule: bit_length.induct)
  case (1 n)
  show ?case
  proof (cases "n div 2 = 0")
    case True
    with "1.prems" have "n = 1" by (simp add: div_eq_0_iff)
    then show ?thesis by (simp add: bit_length.simps)
  next
    case False
    then have pos: "0 < n div 2" by simp
    from "1.prems" have n0: "n \<noteq> 0" by simp
    from "1.IH"[OF n0 pos] have ih: "2 ^ (bit_length (n div 2) - 1) \<le> n div 2"
      "n div 2 < 2 ^ bit_length (n div 2)" by simp_all
    have bl: "bit_length n = Suc (bit_length (n div 2))"
      using n0 by (subst bit_length.simps) simp
    have "0 < bit_length (n div 2)"
      using False by (subst bit_length.simps) simp
    then obtain k where k: "bit_length (n div 2) = Suc k" by (cases "bit_length (n div 2)") auto
    from ih k have "2 ^ k \<le> n div 2" "n div 2 < 2 ^ Suc k" by simp_all
    then have "2 * 2 ^ k \<le> n" "n < 2 * 2 ^ Suc k" by linarith+
    then show ?thesis by (simp add: bl k)
  qed
qed

lemma bit_length_pos: "0 < n \<Longrightarrow> 0 < bit_length n"
  by (subst bit_length.simps) simp

lemma exponent2_bounds:
  assumes "0 < a"
  shows "2 powi exponent2 a \<le> a \<and> a < 2 powi (exponent2 a + 1)"
proof (cases "1 \<le> a")
  case True
  define n where "n = nat \<lfloor>a\<rfloor>"
  from True have fl: "1 \<le> \<lfloor>a\<rfloor>" by simp
  then have npos: "0 < n" by (simp add: n_def)
  from bit_length_bounds[OF npos] have b: "2 ^ (bit_length n - 1) \<le> n" "n < 2 ^ bit_length n"
    by simp_all
  from bit_length_pos[OF npos] obtain k where k: "bit_length n = Suc k"
    by (cases "bit_length n") auto
  have e: "exponent2 a = int k" using True by (simp add: exponent2_def n_def[symmetric] k)
  have na: "rat_of_nat n \<le> a" using fl by (simp add: n_def)
  have an: "a < rat_of_nat n + 1" using fl by (simp add: n_def) linarith
  from b k have "2 ^ k \<le> n" "n + 1 \<le> 2 ^ Suc k" by simp_all
  then have "rat_of_nat (2 ^ k) \<le> rat_of_nat n" "rat_of_nat (n + 1) \<le> rat_of_nat (2 ^ Suc k)"
    by (simp_all only: of_nat_le_iff)
  then have "(2::rat) ^ k \<le> rat_of_nat n" "rat_of_nat n + 1 \<le> 2 ^ Suc k"
    by simp_all
  with na an have "(2::rat) ^ k \<le> a" "a < 2 ^ Suc k" by linarith+
  then show ?thesis by (simp add: e power_int_add)
next
  case False
  then have a1: "a < 1" by simp
  define n where "n = \<lceil>1 / a\<rceil>"
  define m where "m = nat (n - 1)"
  from assms a1 have inv: "1 < 1 / a" by simp
  then have n2: "2 \<le> n" unfolding n_def by (simp add: le_ceiling_iff)
  then have mpos: "0 < m" by (simp add: m_def)
  from bit_length_bounds[OF mpos] have b: "2 ^ (bit_length m - 1) \<le> m" "m < 2 ^ bit_length m"
    by simp_all
  from bit_length_pos[OF mpos] obtain k where k: "bit_length m = Suc k"
    by (cases "bit_length m") auto
  have e: "exponent2 a = - int (Suc k)"
    using False by (simp add: exponent2_def n_def[symmetric] m_def[symmetric] k)
  have mn: "rat_of_nat m = of_int n - 1" using n2 by (simp add: m_def)
  have up: "1 / a \<le> of_int n" unfolding n_def by (rule le_of_int_ceiling)
  have lo: "of_int n - 1 < 1 / a" unfolding n_def by linarith
  from b k have "2 ^ k \<le> m" "m + 1 \<le> 2 ^ Suc k" by simp_all
  then have "rat_of_nat (2 ^ k) \<le> rat_of_nat m" "rat_of_nat (m + 1) \<le> rat_of_nat (2 ^ Suc k)"
    by (simp_all only: of_nat_le_iff)
  then have "(2::rat) ^ k \<le> rat_of_nat m" "rat_of_nat m + 1 \<le> 2 ^ Suc k"
    by simp_all
  with mn up lo have h: "(2::rat) ^ k < 1 / a" "1 / a \<le> 2 ^ Suc k" by linarith+
  have p1: "(2::rat) powi (- int (Suc k)) = 1 / 2 ^ Suc k"
    unfolding power_int_minus_divide power_int_of_nat ..
  have "- int (Suc k) + 1 = - int k" by simp
  then have p2: "(2::rat) powi (- int (Suc k) + 1) = 1 / 2 ^ k"
    by (simp only: power_int_minus_divide power_int_of_nat)
  from h assms have "1 / 2 ^ Suc k \<le> a" "a < 1 / 2 ^ k"
    by (simp_all add: field_simps)
  then show ?thesis unfolding e p1 p2 by simp
qed

lemma pow2_less_imp: "(2::rat) powi m < 2 powi n \<Longrightarrow> m < n"
proof (rule ccontr)
  assume lt: "(2::rat) powi m < 2 powi n" and "\<not> m < n"
  then have "n \<le> m" by simp
  then have "(2::rat) powi n \<le> 2 powi m" by (rule power_int_increasing) simp
  with lt show False by simp
qed

lemma exponent2_unique:
  assumes "2 powi e \<le> a" and "a < 2 powi (e + 1)"
  shows "exponent2 a = e"
proof -
  have "(0::rat) < 2 powi e" by simp
  with assms have pos: "0 < a" by linarith
  from exponent2_bounds[OF pos]
  have b: "2 powi exponent2 a \<le> a" "a < 2 powi (exponent2 a + 1)" by simp_all
  from b(1) assms(2) have "(2::rat) powi exponent2 a < 2 powi (e + 1)" by linarith
  then have 1: "exponent2 a < e + 1" by (rule pow2_less_imp)
  from assms(1) b(2) have "(2::rat) powi e < 2 powi (exponent2 a + 1)" by linarith
  then have 2: "e < exponent2 a + 1" by (rule pow2_less_imp)
  from 1 2 show ?thesis by simp
qed

lemma exponent2_mono:
  assumes "0 < a" and "a \<le> b"
  shows "exponent2 a \<le> exponent2 b"
proof -
  from assms have "0 < b" by simp
  from exponent2_bounds[OF assms(1)] exponent2_bounds[OF this] assms(2)
  have "(2::rat) powi exponent2 a < 2 powi (exponent2 b + 1)" by linarith
  then have "exponent2 a < exponent2 b + 1" by (rule pow2_less_imp)
  then show ?thesis by simp
qed

lemma round_half_even_bounds: "\<lfloor>x\<rfloor> \<le> round_half_even x \<and> round_half_even x \<le> \<lfloor>x\<rfloor> + 1"
  by (simp add: round_half_even_def Let_def)

lemma round_half_even_of_int: "round_half_even (of_int n) = n"
  by (simp add: round_half_even_def Let_def)

lemma round_half_even_mono:
  assumes "x \<le> y"
  shows "round_half_even x \<le> round_half_even y"
proof (cases "\<lfloor>x\<rfloor> < \<lfloor>y\<rfloor>")
  case True
  with round_half_even_bounds[of x] round_half_even_bounds[of y] show ?thesis by linarith
next
  case False
  with assms have eq: "\<lfloor>x\<rfloor> = \<lfloor>y\<rfloor>" using floor_mono[OF assms] by simp
  from assms have "x - of_int \<lfloor>y\<rfloor> \<le> y - of_int \<lfloor>y\<rfloor>" by simp
  then show ?thesis by (auto simp: round_half_even_def Let_def eq)
qed

lemma round_half_even_close:
  assumes "\<bar>x - of_int M\<bar> < 1 / 2 \<or> (\<bar>x - of_int M\<bar> = 1 / 2 \<and> even M)"
  shows "round_half_even x = M"
proof (cases "of_int M \<le> x")
  case True
  with assms have "x < of_int M + 1" by linarith
  with True have fl: "\<lfloor>x\<rfloor> = M" by (intro floor_unique) simp_all
  from True assms have "x - of_int M < 1 / 2 \<or> (x - of_int M = 1 / 2 \<and> even M)" by linarith
  then show ?thesis by (auto simp: round_half_even_def Let_def fl)
next
  case False
  with assms have "of_int (M - 1) \<le> x" "x < of_int (M - 1) + 1" by simp_all linarith+
  then have fl: "\<lfloor>x\<rfloor> = M - 1" by (rule floor_unique)
  from False assms have "1 / 2 < x - of_int (M - 1) \<or> (x - of_int (M - 1) = 1 / 2 \<and> odd (M - 1))"
    by simp linarith
  then show ?thesis by (auto simp: round_half_even_def Let_def fl)
qed

lemma pow2_split:
  "(2::rat) powi (e + 1) = 2 ^ 53 * 2 powi (e - 52)" "(2::rat) powi e = 2 ^ 52 * 2 powi (e - 52)"
proof -
  have "e - 52 + 53 = e + 1" by simp
  moreover have "(2::rat) powi (e - 52 + 53) = 2 powi (e - 52) * 2 powi 53"
    by (rule power_int_add) simp
  ultimately have "(2::rat) powi (e + 1) = 2 powi (e - 52) * 2 powi 53" by (simp only:)
  then show "(2::rat) powi (e + 1) = 2 ^ 53 * 2 powi (e - 52)"
    by (simp only: power_int_numeral mult.commute)
  have "e - 52 + 52 = e" by simp
  moreover have "(2::rat) powi (e - 52 + 52) = 2 powi (e - 52) * 2 powi 52"
    by (rule power_int_add) simp
  ultimately have "(2::rat) powi e = 2 powi (e - 52) * 2 powi 52" by (simp only:)
  then show "(2::rat) powi e = 2 ^ 52 * 2 powi (e - 52)"
    by (simp only: power_int_numeral mult.commute)
qed

lemma below_binade:
  assumes "0 < a"
  shows "a < 2 powi (binade a + 1)"
proof -
  have "exponent2 a + 1 \<le> binade a + 1" by (simp add: binade_def)
  then have "(2::rat) powi (exponent2 a + 1) \<le> 2 powi (binade a + 1)"
    by (rule power_int_increasing) simp
  with exponent2_bounds[OF assms] show ?thesis by linarith
qed

lemma nearest64_upper:
  assumes "0 < a"
  shows "nearest64 a \<le> 2 powi (binade a + 1)"
proof -
  let ?u = "(2::rat) powi (binade a - 52)"
  have u: "0 < ?u" by simp
  have split: "(2::rat) powi (binade a + 1) = 2 ^ 53 * ?u" by (rule pow2_split(1))
  from below_binade[OF assms] split have "a < 2 ^ 53 * ?u" by linarith
  with u have "a / ?u \<le> of_int (2 ^ 53)" by (simp add: pos_divide_le_eq)
  from round_half_even_mono[OF this]
  have "round_half_even (a / ?u) \<le> 2 ^ 53" by (simp only: round_half_even_of_int)
  then have "(of_int (round_half_even (a / ?u)) :: rat) \<le> of_int (2 ^ 53)"
    by (simp only: of_int_le_iff)
  then have "of_int (round_half_even (a / ?u)) * ?u \<le> of_int (2 ^ 53) * ?u"
    using u by (intro mult_right_mono) simp_all
  then have "nearest64 a \<le> 2 ^ 53 * ?u" by (simp add: nearest64_def)
  with split show ?thesis by linarith
qed

lemma nearest64_lower:
  assumes "0 < a" and "binade a = exponent2 a"
  shows "2 powi binade a \<le> nearest64 a"
proof -
  let ?u = "(2::rat) powi (binade a - 52)"
  have u: "0 < ?u" by simp
  have split: "(2::rat) powi binade a = 2 ^ 52 * ?u" by (rule pow2_split(2))
  from exponent2_bounds[OF assms(1)] assms(2) have "2 powi binade a \<le> a" by simp
  with split have "2 ^ 52 * ?u \<le> a" by linarith
  with u have "of_int (2 ^ 52) \<le> a / ?u" by (simp add: pos_le_divide_eq)
  from round_half_even_mono[OF this]
  have "2 ^ 52 \<le> round_half_even (a / ?u)" by (simp only: round_half_even_of_int)
  then have "(of_int (2 ^ 52) :: rat) \<le> of_int (round_half_even (a / ?u))"
    by (simp only: of_int_le_iff)
  then have "of_int (2 ^ 52) * ?u \<le> of_int (round_half_even (a / ?u)) * ?u"
    using u by (intro mult_right_mono) simp_all
  then have "2 ^ 52 * ?u \<le> nearest64 a" by (simp add: nearest64_def)
  with split show ?thesis by linarith
qed

lemma nearest64_nonneg:
  assumes "0 < a"
  shows "0 \<le> nearest64 a"
proof -
  let ?u = "(2::rat) powi (binade a - 52)"
  have u: "0 < ?u" by simp
  with assms have "of_int 0 \<le> a / ?u" by simp
  from round_half_even_mono[OF this] have "0 \<le> round_half_even (a / ?u)"
    by (simp only: round_half_even_of_int)
  with u show ?thesis by (simp add: nearest64_def)
qed

lemma nearest64_mono:
  assumes "0 < a" and "a \<le> b"
  shows "nearest64 a \<le> nearest64 b"
proof -
  from assms have bpos: "0 < b" by simp
  have le: "binade a \<le> binade b"
    using exponent2_mono[OF assms] by (simp add: binade_def)
  show ?thesis
  proof (cases "binade a = binade b")
    case True
    let ?u = "(2::rat) powi (binade b - 52)"
    have u: "0 < ?u" by simp
    with assms(2) have "a / ?u \<le> b / ?u" by (simp add: divide_right_mono)
    from round_half_even_mono[OF this]
    have "(of_int (round_half_even (a / ?u)) :: rat) \<le> of_int (round_half_even (b / ?u))"
      by (simp only: of_int_le_iff)
    then have "of_int (round_half_even (a / ?u)) * ?u \<le> of_int (round_half_even (b / ?u)) * ?u"
      using u by (intro mult_right_mono) simp_all
    then show ?thesis by (simp only: nearest64_def True)
  next
    case False
    with le have lt: "binade a + 1 \<le> binade b" by simp
    then have "- 1022 < binade b" by (simp add: binade_def)
    then have eb: "binade b = exponent2 b" by (simp add: binade_def max_def split: if_splits)
    from lt have "(2::rat) powi (binade a + 1) \<le> 2 powi binade b"
      by (rule power_int_increasing) simp
    with nearest64_upper[OF assms(1)] nearest64_lower[OF bpos eb] show ?thesis by linarith
  qed
qed

text \<open>
  The value of \<open>nearest64\<close> at a number whose binade is known: the multiple \<open>M\<close> of the
  unit in the last place that is less than half a unit away, or exactly half a unit away
  and even.
\<close>

lemma nearest64_close:
  assumes "2 powi e \<le> a" and "a < 2 powi (e + 1)" and "- 1022 \<le> e"
    and "\<bar>a / 2 powi (e - 52) - of_int M\<bar> < 1 / 2
         \<or> (\<bar>a / 2 powi (e - 52) - of_int M\<bar> = 1 / 2 \<and> even M)"
  shows "nearest64 a = of_int M * 2 powi (e - 52)"
proof -
  have "binade a = e"
    using assms(3) by (simp add: binade_def exponent2_unique[OF assms(1,2)])
  then show ?thesis
    by (simp add: nearest64_def round_half_even_close[OF assms(4)])
qed

section \<open>Values of the ratio test\<close>


lemma nearest64_threshold: "nearest64 (4 / 5) = 3602879701896397 / 4503599627370496"
  by (subst nearest64_close[where e = "- 1" and M = 7205759403792794]) simp_all

lemma MEMORY_THRESHOLD_value: "MEMORY_THRESHOLD = JNum (3602879701896397 / 4503599627370496)"
  by (simp add: MEMORY_THRESHOLD_def round64_def nearest64_threshold)

text \<open>
  The quotient \<open>14411518807585579 / 2 ^ 56\<close> lies halfway between two binary64 numbers and
  rounds up to the even one; one minus that number lies halfway again and rounds to the
  threshold. Below the quotient, the result of the division is at most the odd neighbour.
\<close>

lemma nearest64_tie: "nearest64 (14411518807585579 / 2 ^ 56) = 3602879701896395 / 18014398509481984"
  by (subst nearest64_close[where e = "- 3" and M = 7205759403792790]) simp_all

lemma nearest64_one_minus_tie:
  "nearest64 (1 - 3602879701896395 / 18014398509481984) = 3602879701896397 / 4503599627370496"
  by (subst nearest64_close[where e = "- 1" and M = 7205759403792794]) simp_all




text \<open>
  The ratio test of line 64 in terms of the two numbers read: with a non-zero total, the
  computed usage ratio is above the threshold exactly when \<open>free / total\<close> is below
  \<open>14411518807585579 / 2 ^ 56\<close>, a number just under one fifth.
\<close>

lemma round64_0: "round64 0 = JNum 0"
  by (simp add: round64_def)

lemma round64_pos:
  "0 < q \<Longrightarrow> round64 q = (if 2 ^ 1024 \<le> nearest64 q then JPosInf else JNum (nearest64 q))"
  by (simp add: round64_def)

lemma round64_neg:
  "q < 0 \<Longrightarrow>
     round64 q = (if 2 ^ 1024 \<le> nearest64 (- q) then JNegInf else JNum (- nearest64 (- q)))"
  by (simp add: round64_def)

lemma ratio_not_above:
  assumes "0 < t" and "14411518807585579 / 2 ^ 56 \<le> rat_of_nat f / rat_of_nat t"
  shows "\<not> js_gt (memoryUsageRatio f t) MEMORY_THRESHOLD"
proof -
  define r where "r = rat_of_nat f / rat_of_nat t"
  define q where "q = 1 - nearest64 r"
  have cpos: "(0::rat) < 14411518807585579 / 2 ^ 56" by simp
  from assms(2) have cr: "14411518807585579 / 2 ^ 56 \<le> r" by (simp only: r_def)
  with cpos have rpos: "0 < r" by linarith
  from assms(1) have t0: "rat_of_nat t \<noteq> 0" by simp
  have ratio: "memoryUsageRatio f t = js_sub (JNum 1) (round64 r)"
    using t0 by (simp add: memoryUsageRatio_def r_def)
  from nearest64_mono[OF cpos cr]
  have x: "3602879701896395 / 18014398509481984 \<le> nearest64 r" by (simp only: nearest64_tie)
  show ?thesis
  proof (cases "2 ^ 1024 \<le> nearest64 r")
    case True
    with round64_pos[OF rpos] have "round64 r = JPosInf" by simp
    then show ?thesis by (simp add: ratio MEMORY_THRESHOLD_value)
  next
    case False
    with round64_pos[OF rpos] have "round64 r = JNum (nearest64 r)" by simp
    then have sub: "memoryUsageRatio f t = round64 q" by (simp add: ratio q_def)
    consider "q = 0" | "0 < q" | "q < 0" by linarith
    then show ?thesis
    proof cases
      case 1
      then show ?thesis by (simp add: sub round64_0 MEMORY_THRESHOLD_value)
    next
      case 2
      from x have "q \<le> 1 - 3602879701896395 / 18014398509481984" by (simp add: q_def)
      from nearest64_mono[OF 2 this]
      have v: "nearest64 q \<le> 3602879701896397 / 4503599627370496"
        by (simp only: nearest64_one_minus_tie)
      then have "\<not> 2 ^ 1024 \<le> nearest64 q" by simp
      with round64_pos[OF 2] have "round64 q = JNum (nearest64 q)" by simp
      with v show ?thesis by (simp add: sub MEMORY_THRESHOLD_value)
    next
      case 3
      then have "0 < - q" by simp
      from nearest64_nonneg[OF this] have nn: "0 \<le> nearest64 (- q)" .
      show ?thesis
      proof (cases "2 ^ 1024 \<le> nearest64 (- q)")
        case True
        with round64_neg[OF 3] have "round64 q = JNegInf" by simp
        then show ?thesis by (simp add: sub MEMORY_THRESHOLD_value)
      next
        case False
        with round64_neg[OF 3] have "round64 q = JNum (- nearest64 (- q))" by simp
        with nn show ?thesis by (simp add: sub MEMORY_THRESHOLD_value)
      qed
    qed
  qed
qed



lemma memoryUsageRatio_9_10: "memoryUsageRatio 9 10 = JNum (900719925474099 / 9007199254740992)"
proof -
  have a: "nearest64 (9 / 10) = 8106479329266893 / 9007199254740992"
    by (subst nearest64_close[where e = "- 1" and M = 8106479329266893]) simp_all
  have b: "nearest64 (900719925474099 / 9007199254740992) = 900719925474099 / 9007199254740992"
    by (subst nearest64_close[where e = "- 4" and M = 7205759403792792]) simp_all
  show ?thesis by (simp add: memoryUsageRatio_def round64_def a b)
qed

section \<open>Evaluation lemmas\<close>

lemma show_nat_digit: "n < 10 \<Longrightarrow> show_nat n = [''0123456789'' ! n]"
  by (subst show_nat.simps) simp

lemmas parse_defs =
  parseInt_def is_js_whitespace_def is_radix_digit_def digit_of_def digits_value_def Let_def

lemma parseInt_200: "parseInt ''200'' = JNum 200"
  by (simp add: parse_defs)

lemma parseInt_20000000: "parseInt ''20000000'' = JNum 20000000"
  by (simp add: parse_defs)

lemma parseInt_abc: "parseInt ''abc'' = JNaN"
  by (simp add: parse_defs)

lemmas selector_eval =
  shouldUseMemoryStorage_def shouldUseMemoryStorage_try_def memoryUsageRatio_9_10
  MEMORY_THRESHOLD_value

lemmas handler_defs =
  post_upload_def adaptiveUpload_def multer_single_def upload_handler_def upload_try_def
  upload_catch_def race_def writeFileSync_def unlinkSync_def send_def emit_def
  console_error_def path_join_def storage_path_def contentLength_def Let_def

lemmas example_defs =
  example_env_def example_metadata_def example_part_def example_request_def
  example_world_def


lemma js_le_trans_gt: "js_le a (JNum x) \<Longrightarrow> x \<le> y \<Longrightarrow> \<not> js_gt a (JNum y)"
  by (cases a) (auto split: if_splits)


section \<open>The selector's thresholds\<close>




text \<open>
  Claim C4. For every declared size, if \<^verbatim>\<open>os.freemem()\<close> or \<^verbatim>\<open>os.totalmem()\<close> throws, the
  error leaves the \<^verbatim>\<open>try\<close> block and is caught inside the selector, which returns
  \<^verbatim>\<open>false\<close> (disk storage) instead of throwing.
\<close>

theorem probe_failure_selects_disk:
  assumes "isl (freemem e) \<or> isl (totalmem e)"
  shows "isl (shouldUseMemoryStorage_try e declaredSize) \<and> \<not> shouldUseMemoryStorage e declaredSize"
  using assms
  by (auto simp: shouldUseMemoryStorage_def shouldUseMemoryStorage_try_def isl_def
      split: sum.splits)

theorem probe_failure_selects_disk_witness:
  "isl (shouldUseMemoryStorage_try (example_env\<lparr>freemem := Inl (Error ''ENOSYS'')\<rparr>) (JNum 0))
   \<and> \<not> shouldUseMemoryStorage (example_env\<lparr>freemem := Inl (Error ''ENOSYS'')\<rparr>) (JNum 0)
   \<and> \<not> shouldUseMemoryStorage (example_env\<lparr>totalmem := Inl (Error ''ENOSYS'')\<rparr>) (JNum 200)"
  using probe_failure_selects_disk [of "example_env\<lparr>freemem := Inl (Error ''ENOSYS'')\<rparr>" "JNum 0"]
    probe_failure_selects_disk [of "example_env\<lparr>totalmem := Inl (Error ''ENOSYS'')\<rparr>" "JNum 200"]
  by simp

text \<open>
  Claim C6, as stated, fails: a declared size of 15000001 bytes is above 15000000, the
  probe succeeds with a usage ratio of 0.10, and the selector returns memory storage.
\<close>

theorem size_15000001_selects_memory:
  "js_gt (JNum 15000001) (JNum 15000000)
   \<and> freemem example_env = Inr 9 \<and> totalmem example_env = Inr 10
   \<and> js_le (memoryUsageRatio 9 10) (JNum (8 / 10))
   \<and> 1 - rat_of_nat 9 / rat_of_nat 10 \<le> (8 / 10 :: rat)
   \<and> shouldUseMemoryStorage example_env (JNum 15000001)"
  by (simp add: selector_eval example_env_def)

text \<open>
  Claim C6, amended. The cutoff of the program is 15 MiB: for every declared size
  strictly greater than 15728640 bytes the selector returns disk storage, whatever the
  probe gives, so also when the probe succeeds with a usage ratio of at most 0.80.
\<close>

theorem size_above_15MiB_selects_disk:
  assumes "js_gt declaredSize (JNum 15728640)"
  shows "\<not> shouldUseMemoryStorage e declaredSize"
  using assms
  by (simp add: shouldUseMemoryStorage_def shouldUseMemoryStorage_try_def split: sum.splits)

theorem size_above_15MiB_selects_disk_witness:
  "js_gt (JNum 15728641) (JNum 15728640) \<and> \<not> shouldUseMemoryStorage example_env (JNum 15728641)"
  using size_above_15MiB_selects_disk [of "JNum 15728641" example_env]
  by simp

text \<open>
  Claim C10. When the \<^verbatim>\<open>content-length\<close> header is present (a non-empty value, which is
  what the program's test of the header lets through to \<^verbatim>\<open>parseInt\<close>) and does not parse
  as a number, the declared size is NaN; NaN is neither greater than nor at most the
  15 MiB cutoff; and with a successful probe the selector's answer is the ratio test
  alone: memory storage exactly when the computed usage ratio is not above the threshold,
  so memory storage whenever the ratio is at most 0.80, be it the ratio as computed or,
  for a non-zero total, the exact ratio \<open>1 - f / t\<close>.
\<close>

theorem unparsable_content_length:
  assumes "headers req ''content-length'' = Some v" and "v \<noteq> []" and "parseInt v = JNaN"
    and "freemem e = Inr f" and "totalmem e = Inr t"
  shows "contentLength req = JNaN
       \<and> \<not> js_gt (contentLength req) (JNum (15 * 1024 * 1024))
       \<and> \<not> js_le (contentLength req) (JNum (15 * 1024 * 1024))
       \<and> shouldUseMemoryStorage e (contentLength req)
           = (\<not> js_gt (memoryUsageRatio f t) MEMORY_THRESHOLD)
       \<and> (js_le (memoryUsageRatio f t) (JNum (8 / 10))
            \<longrightarrow> shouldUseMemoryStorage e (contentLength req))
       \<and> (0 < t \<and> 1 - rat_of_nat f / rat_of_nat t \<le> 8 / 10
            \<longrightarrow> shouldUseMemoryStorage e (contentLength req))"
proof -
  have nan: "contentLength req = JNaN"
    using assms(1-3) by (simp add: contentLength_def)
  have sel: "shouldUseMemoryStorage e JNaN = (\<not> js_gt (memoryUsageRatio f t) MEMORY_THRESHOLD)"
    using assms(4,5) by (simp add: shouldUseMemoryStorage_def shouldUseMemoryStorage_try_def)
  have computed: "js_le (memoryUsageRatio f t) (JNum (8 / 10)) \<longrightarrow> shouldUseMemoryStorage e JNaN"
    using js_le_trans_gt[of "memoryUsageRatio f t" "8 / 10" "3602879701896397 / 4503599627370496"]
    by (auto simp: sel MEMORY_THRESHOLD_value)
  have exact: "0 < t \<and> 1 - rat_of_nat f / rat_of_nat t \<le> 8 / 10 \<longrightarrow> shouldUseMemoryStorage e JNaN"
  proof
    assume h: "0 < t \<and> 1 - rat_of_nat f / rat_of_nat t \<le> 8 / 10"
    define r where "r = rat_of_nat f / rat_of_nat t"
    from h have "14411518807585579 / 2 ^ 56 \<le> r" by (simp add: r_def)
    with h show "shouldUseMemoryStorage e JNaN"
      using ratio_not_above[of t f] by (simp add: sel r_def)
  qed
  from sel computed exact show ?thesis by (simp add: nan)
qed

theorem unparsable_content_length_witness:
  "parseInt ''abc'' = JNaN
   \<and> contentLength (example_request\<lparr>headers := [''content-length'' \<mapsto> ''abc'']\<rparr>) = JNaN
   \<and> js_le (memoryUsageRatio 9 10) (JNum (8 / 10))
   \<and> shouldUseMemoryStorage example_env
        (contentLength (example_request\<lparr>headers := [''content-length'' \<mapsto> ''abc'']\<rparr>))"
  using unparsable_content_length
    [of "example_request\<lparr>headers := [''content-length'' \<mapsto> ''abc'']\<rparr>" "''abc''" example_env 9 10]
  by (simp add: parseInt_abc contentLength_def example_env_def memoryUsageRatio_9_10
      MEMORY_THRESHOLD_value)

section \<open>One request from start to end\<close>

lemma show_nat_5: "show_nat 5 = ''5''"
  by (simp add: show_nat_digit)

lemma show_nat_7: "show_nat 7 = ''7''"
  by (simp add: show_nat_digit)

lemma responses_append: "responses (xs @ ys) = responses xs @ responses ys"
  by (induction xs rule: responses.induct) simp_all

lemma race_timeout:
  assumes "relay e = None \<or> (\<exists>t out. relay e = Some (t, out) \<and> 180000 < t)"
  shows "race (relay e) = Inl (Error ''Gemini API upload timeout'')"
  using assms by (auto simp: race_def)

text \<open>
  A request with one file within the limits whose relay is won, and whose file operations
  do not fail, is answered with status 200, the fixed message and the relay's metadata.
\<close>

lemma relay_success_response:
  assumes "parts req = [p]" and "length (part_content p) \<le> 50 * 1024 * 1024"
    and "race (relay e) = Inr m" and "write_fault e = None" and "\<And>q. unlink_fault e q = None"
  shows "responses (trace (post_upload e req w)) =
           responses (trace w) @
             [\<lparr>status = 200,
               body = JObj [(''message'', JStr ''File uploaded to Gemini Files API''),
                            (''metadata'', m)]\<rparr>]"
  using assms
  by (cases "shouldUseMemoryStorage e (contentLength req)")
     (simp_all add: post_upload_def adaptiveUpload_def multer_single_def upload_handler_def
        upload_try_def writeFileSync_def unlinkSync_def send_def emit_def responses_append
        Let_def)

text \<open>
  A request with one file within the limits whose relay is lost (rejected, or timed
  out) is answered with status 500, the relay's message as \<^verbatim>\<open>details\<close> and the storage
  mode of the request.
\<close>

lemma relay_failure_response:
  assumes "parts req = [p]" and "length (part_content p) \<le> 50 * 1024 * 1024"
    and "race (relay e) = Inl err" and "write_fault e = None"
  shows "responses (trace (post_upload e req w)) =
           responses (trace w) @
             [\<lparr>status = 500,
               body = JObj [(''error'', JStr ''File upload failed''),
                            (''details'', JStr (message err)),
                            (''storageType'',
                               JStr (if shouldUseMemoryStorage e (contentLength req)
                                     then ''memory'' else ''disk''))]\<rparr>]"
  using assms
  by (cases "shouldUseMemoryStorage e (contentLength req)")
     (simp_all add: post_upload_def adaptiveUpload_def multer_single_def upload_handler_def
        upload_try_def upload_catch_def writeFileSync_def unlinkSync_def send_def emit_def
        console_error_def responses_append Let_def split: option.splits)

text \<open>
  After a lost relay the file that multer wrote in disk mode is deleted (when the
  deletion itself does not fail), and the file that the handler wrote in memory mode is
  still there.
\<close>

lemma disk_mode_failure_deletes_file:
  assumes "parts req = [p]" and "length (part_content p) \<le> 50 * 1024 * 1024"
    and "\<not> shouldUseMemoryStorage e (contentLength req)"
    and "race (relay e) = Inl err" and "unlink_fault e (storage_path e p) = None"
  shows "fs_files (post_upload e req w) (storage_path e p) = None"
  using assms
  by (simp add: post_upload_def adaptiveUpload_def multer_single_def upload_handler_def
      upload_try_def upload_catch_def unlinkSync_def send_def emit_def console_error_def
      Let_def storage_path_def path_join_def)

lemma memory_mode_failure_keeps_temp_file:
  assumes "parts req = [p]" and "length (part_content p) \<le> 50 * 1024 * 1024"
    and "shouldUseMemoryStorage e (contentLength req)"
    and "race (relay e) = Inl err" and "write_fault e = None"
  shows "fs_files (post_upload e req w)
           (path_join (uploadsDir e)
              (''temp-'' @ show_nat (now_handler e) @ ''-'' @ part_originalname p))
         = Some (part_content p)"
  using assms
  by (simp add: post_upload_def adaptiveUpload_def multer_single_def upload_handler_def
      upload_try_def upload_catch_def writeFileSync_def send_def emit_def console_error_def
      Let_def)

text \<open>
  Claim C1 says that every disk artifact of a request is deleted before the response is
  sent, on every path. On this request it is not: a 3-byte file declared as 200 bytes
  arrives on a host with a usage ratio of 0.10, so memory storage is chosen and the
  handler writes \<^verbatim>\<open>temp-7-a.txt\<close>; the relay rejects; the \<^verbatim>\<open>catch\<close> block answers 500 and
  deletes nothing, because it only deletes \<^verbatim>\<open>req.file.path\<close> in disk mode. The file, which
  was not there before the request, is there after it.
\<close>

theorem relay_error_leaves_temp_file:
  "fs_files example_world ''/app/uploads/temp-7-a.txt'' = None
   \<and> fs_files (post_upload example_env example_request example_world)
        ''/app/uploads/temp-7-a.txt'' = Some ''abc''
   \<and> trace (post_upload example_env example_request example_world) =
       [EWrite ''/app/uploads/temp-7-a.txt'',
        ERelay (Some ''/app/uploads/temp-7-a.txt'') ''text/plain'' ''a.txt'',
        EConsoleError ''Upload error:'' ''503 Service Unavailable'',
        ESend \<lparr>status = 500,
               body = JObj [(''error'', JStr ''File upload failed''),
                            (''details'', JStr ''503 Service Unavailable''),
                            (''storageType'', JStr ''memory'')]\<rparr>]"
  by (simp add: handler_defs selector_eval example_defs parseInt_200 show_nat_7)

text \<open>
  Claim C3 says that a request whose relay does not settle within 180 seconds is answered
  500 with the timeout message in \<^verbatim>\<open>details\<close>, and that the temp file is still deleted.
  On the same request with a relay that never settles, the answer is as the claim says,
  and the temp file the handler wrote is still on disk.
\<close>

theorem timeout_leaves_temp_file:
  "responses (trace (post_upload (example_env\<lparr>relay := None\<rparr>) example_request example_world)) =
       [\<lparr>status = 500,
         body = JObj [(''error'', JStr ''File upload failed''),
                      (''details'', JStr ''Gemini API upload timeout''),
                      (''storageType'', JStr ''memory'')]\<rparr>]
   \<and> fs_files (post_upload (example_env\<lparr>relay := None\<rparr>) example_request example_world)
        ''/app/uploads/temp-7-a.txt'' = Some ''abc''"
  by (simp add: handler_defs selector_eval example_defs parseInt_200 show_nat_7)

text \<open>
  Claim C5 says that a failing deletion is only logged and never changes the answer, so
  that a request whose relay succeeded is still answered with success. On this request it
  is not: the file is declared as 20000000 bytes, so disk storage is chosen; the relay
  resolves after one second; \<^verbatim>\<open>fs.unlinkSync\<close> on the success path throws, the error
  reaches the \<^verbatim>\<open>catch\<close> block, and the answer is 500 with the deletion's message as
  \<^verbatim>\<open>details\<close>. Only the second deletion, in the \<^verbatim>\<open>catch\<close> block, is logged and swallowed.
\<close>

theorem cleanup_failure_after_relay_success:
  "race (relay (example_env\<lparr>relay := Some (1000, Inr example_metadata),
                             unlink_fault := (\<lambda>p. Some (Error ''EPERM: operation not permitted''))\<rparr>))
     = Inr example_metadata
   \<and> trace (post_upload
        (example_env\<lparr>relay := Some (1000, Inr example_metadata),
                      unlink_fault := (\<lambda>p. Some (Error ''EPERM: operation not permitted''))\<rparr>)
        (example_request\<lparr>headers := [''content-length'' \<mapsto> ''20000000'']\<rparr>)
        example_world) =
       [EWrite ''/app/uploads/5-a.txt'',
        ERelay (Some ''/app/uploads/5-a.txt'') ''text/plain'' ''a.txt'',
        EConsoleError ''Upload error:'' ''EPERM: operation not permitted'',
        ESend \<lparr>status = 500,
               body = JObj [(''error'', JStr ''File upload failed''),
                            (''details'', JStr ''EPERM: operation not permitted''),
                            (''storageType'', JStr ''disk'')]\<rparr>,
        EConsoleError ''Failed to clean up file:'' ''EPERM: operation not permitted'']"
  by (simp add: handler_defs selector_eval example_defs parseInt_20000000 show_nat_5)

text \<open>
  Claim C8 says that every request whose relay resolves before the timeout is answered
  200 with the fixed message and the provider's metadata. On this memory-mode request
  the relay resolves after one second, the deletion of the temp file throws, and the
  only answer is 500.
\<close>

theorem relay_resolved_but_500:
  "race (relay (example_env\<lparr>relay := Some (1000, Inr example_metadata),
                             unlink_fault := (\<lambda>p. Some (Error ''ENOENT''))\<rparr>))
     = Inr example_metadata
   \<and> responses (trace (post_upload
        (example_env\<lparr>relay := Some (1000, Inr example_metadata),
                      unlink_fault := (\<lambda>p. Some (Error ''ENOENT''))\<rparr>)
        example_request example_world)) =
       [\<lparr>status = 500,
         body = JObj [(''error'', JStr ''File upload failed''),
                      (''details'', JStr ''ENOENT''),
                      (''storageType'', JStr ''memory'')]\<rparr>]"
  by (simp add: handler_defs selector_eval example_defs parseInt_200 show_nat_7)

text \<open>
  Claim C7. A request with no file is answered with status 400 and the body
  \<^verbatim>\<open>{error: "No file uploaded"}\<close>; that response is the only effect of the request: the
  relay is not called, no file is written, and the files on disk are unchanged.
\<close>

theorem no_file_uploaded:
  assumes "parts req = []"
  shows "trace (post_upload e req w) =
           trace w @ [ESend \<lparr>status = 400, body = JObj [(''error'', JStr ''No file uploaded'')]\<rparr>]
       \<and> fs_files (post_upload e req w) = fs_files w"
  using assms
  by (simp add: post_upload_def adaptiveUpload_def multer_single_def upload_handler_def
      upload_try_def send_def emit_def)

theorem no_file_uploaded_witness:
  "parts (example_request\<lparr>parts := []\<rparr>) = []
   \<and> trace (post_upload example_env (example_request\<lparr>parts := []\<rparr>) example_world) =
        [ESend \<lparr>status = 400, body = JObj [(''error'', JStr ''No file uploaded'')]\<rparr>]
   \<and> fs_files (post_upload example_env (example_request\<lparr>parts := []\<rparr>) example_world) = Map.empty"
  using no_file_uploaded [of "example_request\<lparr>parts := []\<rparr>" example_env example_world]
  by (simp add: example_world_def)

text \<open>
  Claim C9. The receiver is set up with a file-size limit of 50 MiB and a maximum of one
  file. A request with more than one file is answered with status 400 and an error
  message that names the file count; a request with one file of more than 50 MiB is
  answered with status 400 and an error message that names the file size. Nothing else
  happens for such a request, and the files on disk are unchanged.
\<close>

theorem receiver_limits:
  "(1 < length (parts req) \<longrightarrow>
      trace (post_upload e req w) =
        trace w @ [ESend \<lparr>status = 400,
                          body = JObj [(''error'', JStr ''Multer error: Too many files'')]\<rparr>]
      \<and> fs_files (post_upload e req w) = fs_files w)
 \<and> (length (parts req) \<le> 1
      \<and> list_ex (\<lambda>p. 50 * 1024 * 1024 < length (part_content p)) (parts req) \<longrightarrow>
      trace (post_upload e req w) =
        trace w @ [ESend \<lparr>status = 400,
                          body = JObj [(''error'', JStr ''Multer error: File too large'')]\<rparr>]
      \<and> fs_files (post_upload e req w) = fs_files w)"
  by (simp add: post_upload_def adaptiveUpload_def multer_single_def send_def emit_def)

theorem receiver_limits_witness:
  "1 < length (parts (example_request\<lparr>parts := [example_part, example_part]\<rparr>))
   \<and> trace (post_upload example_env (example_request\<lparr>parts := [example_part, example_part]\<rparr>)
        example_world) =
       [ESend \<lparr>status = 400,
               body = JObj [(''error'', JStr ''Multer error: Too many files'')]\<rparr>]
   \<and> list_ex (\<lambda>p. 50 * 1024 * 1024 < length (part_content p))
        (parts (example_request
           \<lparr>parts := [example_part\<lparr>part_content := replicate 52428801 (CHR ''x'')\<rparr>]\<rparr>))
   \<and> trace (post_upload example_env
        (example_request\<lparr>parts := [example_part\<lparr>part_content := replicate 52428801 (CHR ''x'')\<rparr>]\<rparr>)
        example_world) =
       [ESend \<lparr>status = 400,
               body = JObj [(''error'', JStr ''Multer error: File too large'')]\<rparr>]"
  using receiver_limits [of "example_request\<lparr>parts := [example_part, example_part]\<rparr>"
      example_env example_world]
    receiver_limits [of "example_request
        \<lparr>parts := [example_part\<lparr>part_content := replicate 52428801 (CHR ''x'')\<rparr>]\<rparr>"
      example_env example_world]
  by (simp add: example_world_def)

end
